theory Spec2Isabelle
  imports Main "HOL-Library.Word"
begin

section \<open>The GSSAPI extension wrappers of python-gssapi\<close>

text \<open>
  The three Cython modules \<^verbatim>\<open>ext_dce_aead.pyx\<close>, \<^verbatim>\<open>ext_password_add.pyx\<close> and
  \<^verbatim>\<open>ext_rfc6680.pyx\<close> (the last one also holds \<^verbatim>\<open>set_cred_option\<close>) wrap entry points of
  the native GSSAPI library.  The native library is not part of the repository: it is a
  parameter of the model, a deterministic state machine over an arbitrary state type \<open>'s\<close>.
  Every wrapper threads a world: the native state, the store of Python \<^verbatim>\<open>Creds\<close> objects
  and a chronological trace of what the wrapper did at the native boundary.
\<close>

subsection \<open>C types\<close>

type_synonym OM_uint32 = "32 word"
type_synonym c_int = "32 word"
type_synonym size_t = "64 word"
type_synonym gss_qop_t = "32 word"
type_synonym bytes = string

text \<open>Opaque native handles are addresses; the null handle is address 0.\<close>

type_synonym gss_ctx_id_t = nat
type_synonym gss_name_t = nat
type_synonym gss_cred_id_t = nat
type_synonym gss_OID_desc = bytes
type_synonym gss_OID_set = "gss_OID_desc list"

definition GSS_S_COMPLETE :: OM_uint32 where
  "GSS_S_COMPLETE = 0"

definition GSS_C_QOP_DEFAULT :: gss_qop_t where
  "GSS_C_QOP_DEFAULT = 0"

definition GSS_C_NO_CREDENTIAL :: gss_cred_id_t where
  "GSS_C_NO_CREDENTIAL = 0"

datatype gss_cred_usage_t = GSS_C_BOTH | GSS_C_INITIATE | GSS_C_ACCEPT

text \<open>
  \<^verbatim>\<open>gss_buffer_desc(length, value)\<close>: a length and a pointer.  The pointer is \<open>None\<close> when
  it is \<^verbatim>\<open>NULL\<close> and otherwise holds the bytes of the block it points to.
\<close>

record gss_buffer_desc =
  buf_length :: nat
  buf_value :: "bytes option"

text \<open>\<^verbatim>\<open>gss_buffer_t\<close> is a pointer to a descriptor; \<^verbatim>\<open>GSS_C_NO_BUFFER\<close> is the null pointer.\<close>

type_synonym gss_buffer_t = "gss_buffer_desc option"

definition GSS_C_NO_BUFFER :: gss_buffer_t where
  "GSS_C_NO_BUFFER = None"

text \<open>\<^verbatim>\<open>gss_buffer_desc(0, NULL)\<close>, which the source calls \<^verbatim>\<open>GSS_C_EMPTY_BUFFER\<close>.\<close>

definition GSS_C_EMPTY_BUFFER :: gss_buffer_desc where
  "GSS_C_EMPTY_BUFFER = \<lparr>buf_length = 0, buf_value = None\<rparr>"

text \<open>
  \<^verbatim>\<open>gss_buffer_set_t\<close> is a pointer to a counted array of descriptors (the count is the
  length of the list); \<^verbatim>\<open>GSS_C_NO_BUFFER_SET\<close> is the null pointer.
\<close>

type_synonym gss_buffer_set_t = "gss_buffer_desc list option"

definition GSS_C_NO_BUFFER_SET :: gss_buffer_set_t where
  "GSS_C_NO_BUFFER_SET = None"

text \<open>\<^verbatim>\<open>gss_buffer_desc(len(b), b)\<close> for a Python bytes object.\<close>

definition buffer_of_bytes :: "bytes \<Rightarrow> gss_buffer_desc" where
  "buffer_of_bytes b = \<lparr>buf_length = length b, buf_value = Some b\<rparr>"

text \<open>\<^verbatim>\<open>(<char*>buf.value)[:buf.length]\<close>: the copy into a Python bytes object.\<close>

definition bytes_of_buffer :: "gss_buffer_desc \<Rightarrow> bytes" where
  "bytes_of_buffer b = (case buf_value b of None \<Rightarrow> [] | Some d \<Rightarrow> take (buf_length b) d)"

text \<open>\<^verbatim>\<open><bint>x\<close> for a C int.\<close>

definition bint :: "c_int \<Rightarrow> bool" where
  "bint x = (x \<noteq> 0)"

text \<open>A Python bool stored into a C int.\<close>

definition int_of_bool :: "bool \<Rightarrow> c_int" where
  "int_of_bool b = (if b then 1 else 0)"

subsection \<open>What the native calls write back\<close>

record gss_status =
  maj_stat :: OM_uint32
  min_stat :: OM_uint32

record wrap_aead_reply = gss_status +
  wrap_conf_ret :: c_int
  wrap_output_message_buffer :: gss_buffer_desc

record unwrap_aead_reply = gss_status +
  unwrap_output_payload_buffer :: gss_buffer_desc
  unwrap_conf_ret :: c_int
  unwrap_qop_ret :: gss_qop_t

record add_cred_reply = gss_status +
  add_output_creds :: gss_cred_id_t
  add_actual_mechs :: gss_OID_set
  add_actual_init_ttl :: OM_uint32
  add_actual_accept_ttl :: OM_uint32

record display_name_ext_reply = gss_status +
  display_output_name :: gss_buffer_desc

record inquire_name_reply = gss_status +
  inq_name_is_mn :: c_int
  inq_mech_type :: gss_OID_desc
  inq_attrs :: gss_buffer_set_t

record get_name_attribute_reply = gss_status +
  get_authenticated :: c_int
  get_complete :: c_int
  get_value :: gss_buffer_desc
  get_display_value :: gss_buffer_desc
  get_more :: c_int

record export_name_composite_reply = gss_status +
  export_exported_name :: gss_buffer_desc

record set_cred_option_reply = gss_status +
  set_cred :: gss_cred_id_t

subsection \<open>The native library and the imported converters\<close>

text \<open>
  One field per \<^verbatim>\<open>cdef extern\<close> declaration: the native state and the input arguments
  give what the call leaves in its out-parameters, and the next native state.  An in/out
  parameter that the wrapper initialises (\<^verbatim>\<open>more\<close>, \<^verbatim>\<open>*cred\<close>) is an argument as well.
  For \<^verbatim>\<open>gss_inquire_name\<close> the three booleans say which out-pointers are not \<^verbatim>\<open>NULL\<close>.
  \<^verbatim>\<open>gss_release_buffer\<close> and \<^verbatim>\<open>gss_release_buffer_set\<close> are the release entry points that
  come with the \<^verbatim>\<open>cimport\<close>s; like every entry point they return a major status and write
  a minor status.
  The last three fields are the helpers imported from \<^verbatim>\<open>gssapi.raw.cython_converters\<close>,
  whose source is not in the repository.  \<^verbatim>\<open>c_py_ttl_to_c\<close> converts a Python lifetime to
  an \<^verbatim>\<open>OM_uint32\<close>; it gives \<open>None\<close> when the conversion raises, which the wrapper
  passes on as an \<^verbatim>\<open>OverflowError\<close>.
\<close>

datatype exn =
    GSSError OM_uint32 OM_uint32
  | TypeError
  | ValueError string
  | OverflowError

record 's gss_library =
  gss_wrap_aead :: "'s \<Rightarrow> gss_ctx_id_t \<Rightarrow> c_int \<Rightarrow> gss_qop_t \<Rightarrow> gss_buffer_t \<Rightarrow>
    gss_buffer_desc \<Rightarrow> wrap_aead_reply \<times> 's"
  gss_unwrap_aead :: "'s \<Rightarrow> gss_ctx_id_t \<Rightarrow> gss_buffer_desc \<Rightarrow> gss_buffer_t \<Rightarrow>
    unwrap_aead_reply \<times> 's"
  gss_add_cred_with_password :: "'s \<Rightarrow> gss_cred_id_t \<Rightarrow> gss_name_t \<Rightarrow> gss_OID_desc \<Rightarrow>
    gss_buffer_desc \<Rightarrow> gss_cred_usage_t \<Rightarrow> OM_uint32 \<Rightarrow> OM_uint32 \<Rightarrow> add_cred_reply \<times> 's"
  gss_display_name_ext :: "'s \<Rightarrow> gss_name_t \<Rightarrow> gss_OID_desc \<Rightarrow> display_name_ext_reply \<times> 's"
  gss_inquire_name :: "'s \<Rightarrow> gss_name_t \<Rightarrow> bool \<Rightarrow> bool \<Rightarrow> bool \<Rightarrow> inquire_name_reply \<times> 's"
  gss_get_name_attribute :: "'s \<Rightarrow> gss_name_t \<Rightarrow> gss_buffer_desc \<Rightarrow> c_int \<Rightarrow>
    get_name_attribute_reply \<times> 's"
  gss_set_name_attribute :: "'s \<Rightarrow> gss_name_t \<Rightarrow> c_int \<Rightarrow> gss_buffer_desc \<Rightarrow>
    gss_buffer_desc \<Rightarrow> gss_status \<times> 's"
  gss_delete_name_attribute :: "'s \<Rightarrow> gss_name_t \<Rightarrow> gss_buffer_desc \<Rightarrow> gss_status \<times> 's"
  gss_export_name_composite :: "'s \<Rightarrow> gss_name_t \<Rightarrow> export_name_composite_reply \<times> 's"
  gss_set_cred_option :: "'s \<Rightarrow> gss_cred_id_t \<Rightarrow> gss_OID_desc \<Rightarrow> gss_buffer_desc \<Rightarrow>
    set_cred_option_reply \<times> 's"
  gss_release_buffer :: "'s \<Rightarrow> gss_buffer_desc \<Rightarrow> gss_status \<times> 's"
  gss_release_buffer_set :: "'s \<Rightarrow> gss_buffer_desc list \<Rightarrow> gss_status \<times> 's"
  c_py_ttl_to_c :: "int option \<Rightarrow> OM_uint32 option"
  c_c_ttl_to_py :: "OM_uint32 \<Rightarrow> int option"
  c_create_oid_set :: "'s \<Rightarrow> gss_OID_set \<Rightarrow> gss_OID_desc list \<times> 's"

subsection \<open>The trace and the world\<close>

text \<open>
  One event per native call, with the arguments the wrapper passed and what the call wrote
  back, one per release call, and one per \<^verbatim>\<open>Creds()\<close> object the wrapper constructs.
\<close>

datatype event =
    Ev_wrap_aead gss_ctx_id_t c_int gss_qop_t gss_buffer_t gss_buffer_desc wrap_aead_reply
  | Ev_unwrap_aead gss_ctx_id_t gss_buffer_desc gss_buffer_t unwrap_aead_reply
  | Ev_add_cred_with_password gss_cred_id_t gss_name_t gss_OID_desc gss_buffer_desc
      gss_cred_usage_t OM_uint32 OM_uint32 add_cred_reply
  | Ev_display_name_ext gss_name_t gss_OID_desc display_name_ext_reply
  | Ev_inquire_name gss_name_t bool bool bool inquire_name_reply
  | Ev_get_name_attribute gss_name_t gss_buffer_desc c_int get_name_attribute_reply
  | Ev_set_name_attribute gss_name_t c_int gss_buffer_desc gss_buffer_desc gss_status
  | Ev_delete_name_attribute gss_name_t gss_buffer_desc gss_status
  | Ev_export_name_composite gss_name_t export_name_composite_reply
  | Ev_set_cred_option gss_cred_id_t gss_OID_desc gss_buffer_desc set_cred_option_reply
  | Ev_release_buffer gss_buffer_desc gss_status
  | Ev_release_buffer_set "gss_buffer_desc list" gss_status
  | Ev_new_Creds nat

text \<open>
  A Python \<^verbatim>\<open>Creds\<close> object is a reference into \<open>creds_heap\<close>, which holds its
  \<^verbatim>\<open>raw_creds\<close> field; \<open>creds_next\<close> is the first reference not yet allocated.
\<close>

record 's world =
  native :: 's
  creds_heap :: "nat \<Rightarrow> gss_cred_id_t"
  creds_next :: nat
  trace :: "event list"

definition emit :: "event \<Rightarrow> 's world \<Rightarrow> 's world" where
  "emit e w = w\<lparr>trace := trace w @ [e]\<rparr>"

subsection \<open>\<^verbatim>\<open>set_name_attribute\<close>\<close>

definition call_set_name_attribute ::
  "'s gss_library \<Rightarrow> gss_name_t \<Rightarrow> c_int \<Rightarrow> gss_buffer_desc \<Rightarrow> gss_buffer_desc \<Rightarrow> 's world \<Rightarrow>
   gss_status \<times> 's world" where
  "call_set_name_attribute L name complete attr val w =
     (let (r, s) = gss_set_name_attribute L (native w) name complete attr val
      in (r, emit (Ev_set_name_attribute name complete attr val r) (w\<lparr>native := s\<rparr>)))"

text \<open>
  An element of the sequence \<^verbatim>\<open>value\<close>.  The docstring asks for bytes objects, but
  nothing checks the elements before the loop: \<^verbatim>\<open>gss_buffer_desc(len(val), val)\<close> converts
  each one when its turn comes and raises a \<^verbatim>\<open>TypeError\<close> for an object that is not a
  bytes object (\<open>PyOther\<close>).
\<close>

datatype py_value = PyBytes bytes | PyOther

text \<open>
  The body of \<^verbatim>\<open>for val in value\<close>, with the C locals \<^verbatim>\<open>value_len\<close> and \<^verbatim>\<open>i\<close> (both
  \<^verbatim>\<open>size_t\<close>) as arguments.
\<close>

fun set_name_attribute_loop ::
  "'s gss_library \<Rightarrow> gss_name_t \<Rightarrow> gss_buffer_desc \<Rightarrow> bool \<Rightarrow> size_t \<Rightarrow> size_t \<Rightarrow>
   py_value list \<Rightarrow> 's world \<Rightarrow> (exn + unit) \<times> 's world" where
  "set_name_attribute_loop L name attr_buff complete value_len i [] w = (Inr (), w)"
| "set_name_attribute_loop L name attr_buff complete value_len i (val # rest) w =
     (case val of
        PyOther \<Rightarrow> (Inl TypeError, w)
      | PyBytes b \<Rightarrow>
          (let val_buff = buffer_of_bytes b;
               i = i + 1;
               (r, w) = (if i = value_len
                         then call_set_name_attribute L name (int_of_bool complete) attr_buff
                                val_buff w
                         else call_set_name_attribute L name 0 attr_buff val_buff w)
           in if maj_stat r \<noteq> GSS_S_COMPLETE
              then (Inl (GSSError (maj_stat r) (min_stat r)), w)
              else set_name_attribute_loop L name attr_buff complete value_len i rest w))"

text \<open>
  \<^verbatim>\<open>set_name_attribute(name, attr, value, complete=False)\<close>.  The three arguments declared
  \<^verbatim>\<open>not None\<close> are options, and \<open>None\<close> is refused with a \<^verbatim>\<open>TypeError\<close> before the body
  runs.  The source declares \<^verbatim>\<open>cdef size_t i\<close> without an initialiser and then executes
  \<^verbatim>\<open>i += 1\<close>: \<open>i0\<close> is the value the variable holds when the loop starts.
\<close>

definition set_name_attribute ::
  "'s gss_library \<Rightarrow> gss_name_t option \<Rightarrow> bytes option \<Rightarrow> py_value list option \<Rightarrow> bool \<Rightarrow>
   size_t \<Rightarrow> 's world \<Rightarrow> (exn + unit) \<times> 's world" where
  "set_name_attribute L name attr val complete i0 w =
     (case (name, attr, val) of
        (Some name, Some attr, Some val) \<Rightarrow>
          (let attr_buff = buffer_of_bytes attr;
               value_len = (of_nat (length val) :: size_t)
           in set_name_attribute_loop L name attr_buff complete value_len i0 val w)
      | _ \<Rightarrow> (Inl TypeError, w))"

subsection \<open>Releasing native buffers and constructing \<^verbatim>\<open>Creds\<close> objects\<close>

text \<open>
  \<^verbatim>\<open>gss_release_buffer(&min_stat, &buf)\<close> as a statement: the major status it returns is
  discarded, and the minor status it writes is overwritten or dropped before anything
  reads it.  Only the trace keeps what the call reported.
\<close>

definition release_buffer :: "'s gss_library \<Rightarrow> gss_buffer_desc \<Rightarrow> 's world \<Rightarrow> 's world" where
  "release_buffer L b w =
     (let (r, s) = gss_release_buffer L (native w) b
      in emit (Ev_release_buffer b r) (w\<lparr>native := s\<rparr>))"

definition release_buffer_set :: "'s gss_library \<Rightarrow> gss_buffer_desc list \<Rightarrow> 's world \<Rightarrow> 's world" where
  "release_buffer_set L bs w =
     (let (r, s) = gss_release_buffer_set L (native w) bs
      in emit (Ev_release_buffer_set bs r) (w\<lparr>native := s\<rparr>))"

text \<open>
  Modelled from the spec: the constructor \<^verbatim>\<open>Creds()\<close> of \<^verbatim>\<open>gssapi.raw.creds\<close>, whose source
  is not in the repository.  It creates a fresh credential object; the object starts out
  holding the null native handle.
\<close>

definition new_Creds :: "'s world \<Rightarrow> nat \<times> 's world" where
  "new_Creds w =
     (creds_next w,
      emit (Ev_new_Creds (creds_next w))
        (w\<lparr>creds_heap := (creds_heap w)(creds_next w := GSS_C_NO_CREDENTIAL),
           creds_next := Suc (creds_next w)\<rparr>))"

subsection \<open>\<^verbatim>\<open>ext_dce_aead.pyx\<close>\<close>

type_synonym WrapResult = "bytes \<times> bool"

definition call_wrap_aead ::
  "'s gss_library \<Rightarrow> gss_ctx_id_t \<Rightarrow> c_int \<Rightarrow> gss_qop_t \<Rightarrow> gss_buffer_t \<Rightarrow> gss_buffer_desc \<Rightarrow>
   's world \<Rightarrow> wrap_aead_reply \<times> 's world" where
  "call_wrap_aead L ctx conf_req qop_req assoc msg w =
     (let (r, s) = gss_wrap_aead L (native w) ctx conf_req qop_req assoc msg
      in (r, emit (Ev_wrap_aead ctx conf_req qop_req assoc msg r) (w\<lparr>native := s\<rparr>)))"

definition wrap_aead ::
  "'s gss_library \<Rightarrow> gss_ctx_id_t option \<Rightarrow> bytes option \<Rightarrow> bytes option \<Rightarrow> bool \<Rightarrow>
   gss_qop_t option \<Rightarrow> 's world \<Rightarrow> (exn + WrapResult) \<times> 's world" where
  "wrap_aead L context message associated confidential qop w =
     (case (context, message) of
        (Some raw_ctx, Some message) \<Rightarrow>
          (let conf_req = int_of_bool confidential;
               qop_req = (case qop of Some q \<Rightarrow> q | None \<Rightarrow> GSS_C_QOP_DEFAULT);
               message_buffer = buffer_of_bytes message;
               assoc_buffer_ptr = (case associated of
                                     None \<Rightarrow> GSS_C_NO_BUFFER
                                   | Some a \<Rightarrow> Some (buffer_of_bytes a));
               (r, w) = call_wrap_aead L raw_ctx conf_req qop_req assoc_buffer_ptr
                          message_buffer w
           in if maj_stat r = GSS_S_COMPLETE
              then (let output_message = bytes_of_buffer (wrap_output_message_buffer r);
                        w = release_buffer L (wrap_output_message_buffer r) w
                    in (Inr (output_message, bint (wrap_conf_ret r)), w))
              else (Inl (GSSError (maj_stat r) (min_stat r)), w))
      | _ \<Rightarrow> (Inl TypeError, w))"



subsection \<open>\<^verbatim>\<open>ext_password_add.pyx\<close>\<close>

text \<open>\<^verbatim>\<open>AddCredResult(creds, mechs, init_lifetime, accept_lifetime)\<close>; \<open>creds\<close> is a reference.\<close>

type_synonym AddCredResult = "nat \<times> gss_OID_desc list \<times> int option \<times> int option"

definition call_add_cred_with_password ::
  "'s gss_library \<Rightarrow> gss_cred_id_t \<Rightarrow> gss_name_t \<Rightarrow> gss_OID_desc \<Rightarrow> gss_buffer_desc \<Rightarrow>
   gss_cred_usage_t \<Rightarrow> OM_uint32 \<Rightarrow> OM_uint32 \<Rightarrow> 's world \<Rightarrow> add_cred_reply \<times> 's world" where
  "call_add_cred_with_password L cred name mech pw usage ittl attl w =
     (let (r, s) = gss_add_cred_with_password L (native w) cred name mech pw usage ittl attl
      in (r, emit (Ev_add_cred_with_password cred name mech pw usage ittl attl r)
                (w\<lparr>native := s\<rparr>)))"

text \<open>The message of the \<^verbatim>\<open>ValueError\<close>; \<open>CHR 0x22\<close> is the double quote.\<close>

definition invalid_usage_message :: "string \<Rightarrow> string" where
  "invalid_usage_message usage =
     ''Invalid usage '' @ [CHR 0x22] @ usage @ [CHR 0x22] @ '' - permitted values are ''
       @ [CHR 0x22] @ ''initiate'' @ [CHR 0x22] @ '', '' @ [CHR 0x22] @ ''accept''
       @ [CHR 0x22] @ '', and '' @ [CHR 0x22] @ ''both'' @ [CHR 0x22]"

definition add_cred_with_password ::
  "'s gss_library \<Rightarrow> nat option \<Rightarrow> gss_name_t option \<Rightarrow> gss_OID_desc option \<Rightarrow> bytes option \<Rightarrow>
   string \<Rightarrow> int option \<Rightarrow> int option \<Rightarrow> 's world \<Rightarrow> (exn + AddCredResult) \<times> 's world" where
  "add_cred_with_password L input_cred name mech password usage init_lifetime accept_lifetime w =
     (case (input_cred, name, mech, password) of
        (Some input_cred, Some raw_name, Some raw_oid, Some password) \<Rightarrow>
          (let password_buffer = buffer_of_bytes password
           in case (if usage = ''initiate'' then Inr GSS_C_INITIATE
                    else if usage = ''accept'' then Inr GSS_C_ACCEPT
                    else if usage = ''both'' then Inr GSS_C_BOTH
                    else Inl (ValueError (invalid_usage_message usage))) of
                Inl e \<Rightarrow> (Inl e, w)
              | Inr c_usage \<Rightarrow>
                 (case c_py_ttl_to_c L init_lifetime of
                    None \<Rightarrow> (Inl OverflowError, w)
                  | Some input_initiator_ttl \<Rightarrow>
                     (case c_py_ttl_to_c L accept_lifetime of
                        None \<Rightarrow> (Inl OverflowError, w)
                      | Some input_acceptor_ttl \<Rightarrow>
                         (let (r, w) = call_add_cred_with_password L (creds_heap w input_cred)
                                         raw_name raw_oid password_buffer c_usage
                                         input_initiator_ttl input_acceptor_ttl w
                          in if maj_stat r = GSS_S_COMPLETE
                             then (let (rc, w) = new_Creds w;
                                       w = w\<lparr>creds_heap :=
                                              (creds_heap w)(rc := add_output_creds r)\<rparr>;
                                       (mechs, s) = c_create_oid_set L (native w)
                                                      (add_actual_mechs r)
                                   in (Inr (rc, mechs,
                                            c_c_ttl_to_py L (add_actual_init_ttl r),
                                            c_c_ttl_to_py L (add_actual_accept_ttl r)),
                                       w\<lparr>native := s\<rparr>))
                             else (Inl (GSSError (maj_stat r) (min_stat r)), w)))))
      | _ \<Rightarrow> (Inl TypeError, w))"

subsection \<open>\<^verbatim>\<open>ext_rfc6680.pyx\<close>: the single-call wrappers\<close>










subsection \<open>\<^verbatim>\<open>get_name_attribute\<close>\<close>

text \<open>\<^verbatim>\<open>GetNameAttributeResult(values, display_values, authenticated, complete)\<close>.\<close>

type_synonym GetNameAttributeResult = "bytes list \<times> bytes list \<times> bool \<times> bool"

definition call_get_name_attribute ::
  "'s gss_library \<Rightarrow> gss_name_t \<Rightarrow> gss_buffer_desc \<Rightarrow> c_int \<Rightarrow> 's world \<Rightarrow>
   get_name_attribute_reply \<times> 's world" where
  "call_get_name_attribute L name attr more_val w =
     (let (r, s) = gss_get_name_attribute L (native w) name attr more_val
      in (r, emit (Ev_get_name_attribute name attr more_val r) (w\<lparr>native := s\<rparr>)))"

text \<open>
  \<^verbatim>\<open>while more_val != 0\<close>, over the locals it reads and writes.  The native library decides
  when \<^verbatim>\<open>more\<close> becomes zero, so the loop need not end: not returning is \<open>None\<close>.
\<close>

partial_function (option) get_name_attribute_loop ::
  "'s gss_library \<Rightarrow> gss_name_t \<Rightarrow> gss_buffer_desc \<Rightarrow> c_int \<Rightarrow> bytes list \<Rightarrow> bytes list \<Rightarrow>
   c_int \<Rightarrow> c_int \<Rightarrow> 's world \<Rightarrow> ((exn + GetNameAttributeResult) \<times> 's world) option" where
  "get_name_attribute_loop L name attr_buff more_val py_vals py_displ_vals authenticated
     complete w =
     (if more_val \<noteq> 0
      then (let (r, w) = call_get_name_attribute L name attr_buff more_val w
            in if maj_stat r = GSS_S_COMPLETE
               then (let py_vals = py_vals @ [bytes_of_buffer (get_value r)];
                         py_displ_vals = py_displ_vals @ [bytes_of_buffer (get_display_value r)];
                         w = release_buffer L (get_value r) w;
                         w = release_buffer L (get_display_value r) w
                     in get_name_attribute_loop L name attr_buff (get_more r) py_vals
                          py_displ_vals (get_authenticated r) (get_complete r) w)
               else Some (Inl (GSSError (maj_stat r) (min_stat r)), w))
      else Some (Inr (py_vals, py_displ_vals, bint authenticated, bint complete), w))"

declare get_name_attribute_loop.simps [code]

text \<open>
  \<^verbatim>\<open>get_name_attribute(name, attr, more=None)\<close>; the argument \<^verbatim>\<open>more\<close> (here
  \<open>more_arg\<close>) is never read.
  \<^verbatim>\<open>cdef int complete\<close> and \<^verbatim>\<open>cdef int authenticated\<close> have no initialiser:
  \<open>authenticated0\<close> and \<open>complete0\<close> are what they hold before the first native call.
\<close>

definition get_name_attribute ::
  "'s gss_library \<Rightarrow> gss_name_t option \<Rightarrow> bytes option \<Rightarrow> c_int option \<Rightarrow> c_int \<Rightarrow> c_int \<Rightarrow>
   's world \<Rightarrow> ((exn + GetNameAttributeResult) \<times> 's world) option" where
  "get_name_attribute L name attr more_arg authenticated0 complete0 w =
     (case (name, attr) of
        (Some raw_name, Some attr) \<Rightarrow>
          get_name_attribute_loop L raw_name (buffer_of_bytes attr) (- 1) [] []
            authenticated0 complete0 w
      | _ \<Rightarrow> Some (Inl TypeError, w))"

subsection \<open>\<^verbatim>\<open>set_cred_option\<close>\<close>

definition call_set_cred_option ::
  "'s gss_library \<Rightarrow> gss_cred_id_t \<Rightarrow> gss_OID_desc \<Rightarrow> gss_buffer_desc \<Rightarrow> 's world \<Rightarrow>
   set_cred_option_reply \<times> 's world" where
  "call_set_cred_option L cred desired_object val w =
     (let (r, s) = gss_set_cred_option L (native w) cred desired_object val
      in (r, emit (Ev_set_cred_option cred desired_object val r) (w\<lparr>native := s\<rparr>)))"

text \<open>
  The native call receives \<^verbatim>\<open>&output_creds.raw_creds\<close>: it reads the field of the object
  and what it writes back lands in that same object, whatever status it reports.
\<close>

definition set_cred_option ::
  "'s gss_library \<Rightarrow> gss_OID_desc option \<Rightarrow> nat option \<Rightarrow> bytes option \<Rightarrow> 's world \<Rightarrow>
   (exn + nat) \<times> 's world" where
  "set_cred_option L desired_aspect creds val w =
     (case desired_aspect of
        Some raw_oid \<Rightarrow>
          (let value_buffer = (case val of
                                 Some v \<Rightarrow> buffer_of_bytes v
                               | None \<Rightarrow> GSS_C_EMPTY_BUFFER);
               (output_creds, w) = (case creds of
                                      Some c \<Rightarrow> (c, w)
                                    | None \<Rightarrow> new_Creds w);
               (r, w) = call_set_cred_option L (creds_heap w output_creds) raw_oid
                          value_buffer w;
               w = w\<lparr>creds_heap := (creds_heap w)(output_creds := set_cred r)\<rparr>
           in if maj_stat r = GSS_S_COMPLETE
              then (Inr output_creds, w)
              else (Inl (GSSError (maj_stat r) (min_stat r)), w))
      | None \<Rightarrow> (Inl TypeError, w))"

section \<open>Reading the trace\<close>

definition new_events :: "'s world \<Rightarrow> 's world \<Rightarrow> event list" where
  "new_events w w' = drop (length (trace w)) (trace w')"

definition extends :: "'s world \<Rightarrow> 's world \<Rightarrow> bool" where
  "extends w w' = (take (length (trace w)) (trace w') = trace w)"

text \<open>
  The major and minor status of a native call whose return value the wrapper stores in
  \<^verbatim>\<open>maj_stat\<close>.  What a release call returns is stored nowhere.
\<close>

fun status_of :: "event \<Rightarrow> (OM_uint32 \<times> OM_uint32) option" where
  "status_of (Ev_wrap_aead _ _ _ _ _ r) = Some (maj_stat r, min_stat r)"
| "status_of (Ev_unwrap_aead _ _ _ r) = Some (maj_stat r, min_stat r)"
| "status_of (Ev_add_cred_with_password _ _ _ _ _ _ _ r) = Some (maj_stat r, min_stat r)"
| "status_of (Ev_display_name_ext _ _ r) = Some (maj_stat r, min_stat r)"
| "status_of (Ev_inquire_name _ _ _ _ r) = Some (maj_stat r, min_stat r)"
| "status_of (Ev_get_name_attribute _ _ _ r) = Some (maj_stat r, min_stat r)"
| "status_of (Ev_set_name_attribute _ _ _ _ r) = Some (maj_stat r, min_stat r)"
| "status_of (Ev_delete_name_attribute _ _ r) = Some (maj_stat r, min_stat r)"
| "status_of (Ev_export_name_composite _ r) = Some (maj_stat r, min_stat r)"
| "status_of (Ev_set_cred_option _ _ _ r) = Some (maj_stat r, min_stat r)"
| "status_of (Ev_release_buffer _ _) = None"
| "status_of (Ev_release_buffer_set _ _) = None"
| "status_of (Ev_new_Creds _) = None"

text \<open>The major status of every native call, the release calls included.\<close>

fun reported_major :: "event \<Rightarrow> OM_uint32 option" where
  "reported_major (Ev_release_buffer _ r) = Some (maj_stat r)"
| "reported_major (Ev_release_buffer_set _ r) = Some (maj_stat r)"
| "reported_major e = map_option fst (status_of e)"






text \<open>
  A release event without what the release call reported, for comparing traces up to the
  statuses that nothing reads.
\<close>

definition unread_status :: gss_status where
  "unread_status = \<lparr>maj_stat = 0, min_stat = 0\<rparr>"

fun forget_release_status :: "event \<Rightarrow> event" where
  "forget_release_status (Ev_release_buffer b _) = Ev_release_buffer b unread_status"
| "forget_release_status (Ev_release_buffer_set bs _) = Ev_release_buffer_set bs unread_status"
| "forget_release_status e = e"









fun cred_usage_of :: "event \<Rightarrow> gss_cred_usage_t option" where
  "cred_usage_of (Ev_add_cred_with_password _ _ _ _ usage _ _ _) = Some usage"
| "cred_usage_of _ = None"

definition cred_usages :: "event list \<Rightarrow> gss_cred_usage_t list" where
  "cred_usages evs = List.map_filter cred_usage_of evs"

section \<open>The protocols of the two loops, as the specification words them\<close>


text \<open>
  One native call per reply; a call that succeeded is followed by the release of its two
  output buffers and then by the next call, which receives the continuation flag that
  call left.  Nothing follows a call that failed.  The release events are written without
  what the release calls reported.
\<close>

fun get_name_attribute_protocol ::
  "gss_name_t \<Rightarrow> gss_buffer_desc \<Rightarrow> c_int \<Rightarrow> get_name_attribute_reply list \<Rightarrow> event list" where
  "get_name_attribute_protocol name attr_buff more_val [] = []"
| "get_name_attribute_protocol name attr_buff more_val (r # rs) =
     Ev_get_name_attribute name attr_buff more_val r
     # (if maj_stat r = GSS_S_COMPLETE
        then Ev_release_buffer (get_value r) unread_status
             # Ev_release_buffer (get_display_value r) unread_status
             # get_name_attribute_protocol name attr_buff (get_more r) rs
        else [])"

text \<open>
  What the native library answers when it is drained: the replies to the first \<open>n\<close> calls
  of \<^verbatim>\<open>gss_get_name_attribute\<close>, starting in native state \<open>s\<close> with the continuation
  flag \<open>more_val\<close>, where the two output buffers of a reply are released before the
  next call is made with the flag that reply left.  The drain stops at the first reply
  that reports a failure or leaves the flag at zero; \<open>drained\<close> says that it got there.
\<close>

fun native_replies ::
  "nat \<Rightarrow> 's gss_library \<Rightarrow> gss_name_t \<Rightarrow> gss_buffer_desc \<Rightarrow> c_int \<Rightarrow> 's \<Rightarrow>
   get_name_attribute_reply list" where
  "native_replies 0 L name attr_buff more_val s = []"
| "native_replies (Suc n) L name attr_buff more_val s =
     (let (r, s) = gss_get_name_attribute L s name attr_buff more_val
      in r # (if maj_stat r = GSS_S_COMPLETE \<and> get_more r \<noteq> 0
              then (let s = snd (gss_release_buffer L s (get_value r));
                        s = snd (gss_release_buffer L s (get_display_value r))
                    in native_replies n L name attr_buff (get_more r) s)
              else []))"

definition drained :: "get_name_attribute_reply list \<Rightarrow> bool" where
  "drained rs = (rs \<noteq> [] \<and> (maj_stat (last rs) \<noteq> GSS_S_COMPLETE \<or> get_more (last rs) = 0))"

text \<open>
  What \<^verbatim>\<open>get_name_attribute\<close> is to make of a drained list of replies, given the values
  collected before: the error of the last reply when it failed, and otherwise all the
  values in order with the two flags of the last reply.
\<close>

definition drain_result ::
  "bytes list \<Rightarrow> bytes list \<Rightarrow> get_name_attribute_reply list \<Rightarrow> exn + GetNameAttributeResult" where
  "drain_result py_vals py_displ_vals rs =
     (if maj_stat (last rs) = GSS_S_COMPLETE
      then Inr (py_vals @ map (\<lambda>r. bytes_of_buffer (get_value r)) rs,
                py_displ_vals @ map (\<lambda>r. bytes_of_buffer (get_display_value r)) rs,
                bint (get_authenticated (last rs)), bint (get_complete (last rs)))
      else Inl (GSSError (maj_stat (last rs)) (min_stat (last rs))))"

section \<open>An instrumented native double\<close>

text \<open>
  A native library for concrete runs.  Its state counts the native calls made so far;
  every call but a release reports the major status \<open>m\<close> and the minor status 7 and
  fills its output buffers; a release reports the major status \<open>mr\<close>.
  \<^verbatim>\<open>gss_get_name_attribute\<close> announces one more value on the very first call.
\<close>

definition stub_library :: "OM_uint32 \<Rightarrow> OM_uint32 \<Rightarrow> nat gss_library" where
  "stub_library m mr = \<lparr>
     gss_wrap_aead = (\<lambda>s ctx conf qop assoc msg.
       (\<lparr>maj_stat = m, min_stat = 7, wrap_conf_ret = conf,
         wrap_output_message_buffer = buffer_of_bytes ''sealed''\<rparr>, Suc s)),
     gss_unwrap_aead = (\<lambda>s ctx msg assoc.
       (\<lparr>maj_stat = m, min_stat = 7,
         unwrap_output_payload_buffer = buffer_of_bytes ''plain'',
         unwrap_conf_ret = 1, unwrap_qop_ret = 0\<rparr>, Suc s)),
     gss_add_cred_with_password = (\<lambda>s cred name mech pw usage ittl attl.
       (\<lparr>maj_stat = m, min_stat = 7, add_output_creds = 42, add_actual_mechs = [mech],
         add_actual_init_ttl = ittl, add_actual_accept_ttl = attl\<rparr>, Suc s)),
     gss_display_name_ext = (\<lambda>s name name_type.
       (\<lparr>maj_stat = m, min_stat = 7, display_output_name = buffer_of_bytes ''alice''\<rparr>,
        Suc s)),
     gss_inquire_name = (\<lambda>s name name_is_mn_ptr mn_mech_ptr attr_names_ptr.
       (\<lparr>maj_stat = m, min_stat = 7, inq_name_is_mn = 1, inq_mech_type = ''krb5'',
         inq_attrs = Some [buffer_of_bytes ''urn:a'']\<rparr>, Suc s)),
     gss_get_name_attribute = (\<lambda>s name attr more_val.
       (\<lparr>maj_stat = m, min_stat = 7, get_authenticated = 1, get_complete = 1,
         get_value = buffer_of_bytes ''v'', get_display_value = GSS_C_EMPTY_BUFFER,
         get_more = (if s = 0 then 1 else 0)\<rparr>, Suc s)),
     gss_set_name_attribute = (\<lambda>s name complete attr val.
       (\<lparr>maj_stat = m, min_stat = 7\<rparr>, Suc s)),
     gss_delete_name_attribute = (\<lambda>s name attr. (\<lparr>maj_stat = m, min_stat = 7\<rparr>, Suc s)),
     gss_export_name_composite = (\<lambda>s name.
       (\<lparr>maj_stat = m, min_stat = 7, export_exported_name = buffer_of_bytes ''blob''\<rparr>,
        Suc s)),
     gss_set_cred_option = (\<lambda>s cred oid val.
       (\<lparr>maj_stat = m, min_stat = 7, set_cred = 43\<rparr>, Suc s)),
     gss_release_buffer = (\<lambda>s b. (\<lparr>maj_stat = mr, min_stat = 0\<rparr>, s)),
     gss_release_buffer_set = (\<lambda>s bs. (\<lparr>maj_stat = mr, min_stat = 0\<rparr>, s)),
     c_py_ttl_to_c = (\<lambda>t. case t of
        None \<Rightarrow> Some 0xFFFFFFFF
      | Some n \<Rightarrow> if 0 \<le> n \<and> n < 2 ^ 32 then Some (word_of_int n) else None),
     c_c_ttl_to_py = (\<lambda>t. if t = 0xFFFFFFFF then None else Some (uint t)),
     c_create_oid_set = (\<lambda>s ms. (ms, s))\<rparr>"

text \<open>The world before anything happened; \<open>w1\<close> already holds one \<^verbatim>\<open>Creds\<close> object.\<close>

definition w0 :: "nat world" where
  "w0 = \<lparr>native = 0, creds_heap = (\<lambda>_. GSS_C_NO_CREDENTIAL), creds_next = 0, trace = []\<rparr>"

definition w1 :: "nat world" where
  "w1 = \<lparr>native = 0, creds_heap = (\<lambda>_. GSS_C_NO_CREDENTIAL)(0 := 17), creds_next = 1,
          trace = []\<rparr>"

section \<open>Evaluating the double\<close>

lemmas stub_simps = stub_library_def w0_def w1_def emit_def buffer_of_bytes_def bytes_of_buffer_def
  int_of_bool_def bint_def GSS_S_COMPLETE_def GSS_C_NO_CREDENTIAL_def GSS_C_EMPTY_BUFFER_def
  GSS_C_NO_BUFFER_def GSS_C_NO_BUFFER_SET_def GSS_C_QOP_DEFAULT_def Let_def

lemma stub_library_sel:
  "gss_wrap_aead (stub_library m mr) s ctx conf qop assoc msg
     = (\<lparr>maj_stat = m, min_stat = 7, wrap_conf_ret = conf,
         wrap_output_message_buffer = buffer_of_bytes ''sealed''\<rparr>, Suc s)"
  "gss_unwrap_aead (stub_library m mr) s ctx msg assoc
     = (\<lparr>maj_stat = m, min_stat = 7, unwrap_output_payload_buffer = buffer_of_bytes ''plain'',
         unwrap_conf_ret = 1, unwrap_qop_ret = 0\<rparr>, Suc s)"
  "gss_add_cred_with_password (stub_library m mr) s cred name mech pw usage ittl attl
     = (\<lparr>maj_stat = m, min_stat = 7, add_output_creds = 42, add_actual_mechs = [mech],
         add_actual_init_ttl = ittl, add_actual_accept_ttl = attl\<rparr>, Suc s)"
  "gss_display_name_ext (stub_library m mr) s name name_type
     = (\<lparr>maj_stat = m, min_stat = 7, display_output_name = buffer_of_bytes ''alice''\<rparr>, Suc s)"
  "gss_inquire_name (stub_library m mr) s name p1 p2 p3
     = (\<lparr>maj_stat = m, min_stat = 7, inq_name_is_mn = 1, inq_mech_type = ''krb5'',
         inq_attrs = Some [buffer_of_bytes ''urn:a'']\<rparr>, Suc s)"
  "gss_get_name_attribute (stub_library m mr) s name attr more_val
     = (\<lparr>maj_stat = m, min_stat = 7, get_authenticated = 1, get_complete = 1,
         get_value = buffer_of_bytes ''v'', get_display_value = GSS_C_EMPTY_BUFFER,
         get_more = (if s = 0 then 1 else 0)\<rparr>, Suc s)"
  "gss_set_name_attribute (stub_library m mr) s name complete attr val
     = (\<lparr>maj_stat = m, min_stat = 7\<rparr>, Suc s)"
  "gss_delete_name_attribute (stub_library m mr) s name attr = (\<lparr>maj_stat = m, min_stat = 7\<rparr>, Suc s)"
  "gss_export_name_composite (stub_library m mr) s name
     = (\<lparr>maj_stat = m, min_stat = 7, export_exported_name = buffer_of_bytes ''blob''\<rparr>, Suc s)"
  "gss_set_cred_option (stub_library m mr) s cred oid val
     = (\<lparr>maj_stat = m, min_stat = 7, set_cred = 43\<rparr>, Suc s)"
  "gss_release_buffer (stub_library m mr) s b = (\<lparr>maj_stat = mr, min_stat = 0\<rparr>, s)"
  "gss_release_buffer_set (stub_library m mr) s bs = (\<lparr>maj_stat = mr, min_stat = 0\<rparr>, s)"
  "c_py_ttl_to_c (stub_library m mr) None = Some 0xFFFFFFFF"
  "c_c_ttl_to_py (stub_library m mr) 0xFFFFFFFF = None"
  "c_create_oid_set (stub_library m mr) s ms = (ms, s)"
  by (simp_all add: stub_library_def)

lemma w0_sel: "native w0 = 0" "creds_heap w0 c = GSS_C_NO_CREDENTIAL" "creds_next w0 = 0"
  "trace w0 = []"
  by (simp_all add: w0_def)

lemma w1_sel: "native w1 = 0" "creds_heap w1 0 = 17" "creds_next w1 = 1" "trace w1 = []"
  by (simp_all add: w1_def)

lemmas eval_simps = stub_library_sel w0_sel w1_sel GSS_S_COMPLETE_def GSS_C_NO_CREDENTIAL_def
  bytes_of_buffer_def buffer_of_bytes_def bint_def Let_def

section \<open>\<^verbatim>\<open>set_name_attribute\<close>: the multi-value protocol\<close>








text \<open>
  The counter \<^verbatim>\<open>i\<close> has no initialiser in the source.  When it does not start at zero the
  comparison \<^verbatim>\<open>i == value_len\<close> is off: starting at 1, with two values, the caller's
  \<^verbatim>\<open>complete\<close> goes out with the first value and the last one is sent with flag 0.
\<close>

lemma set_name_attribute_counter_not_zero:
  "trace (snd (set_name_attribute (stub_library 0 0) (Some 5) (Some ''k'')
                 (Some (map PyBytes [''v1'', ''v2''])) True 1 w0))
     = [Ev_set_name_attribute 5 1 (buffer_of_bytes ''k'') (buffer_of_bytes ''v1'')
          \<lparr>maj_stat = 0, min_stat = 7\<rparr>,
        Ev_set_name_attribute 5 0 (buffer_of_bytes ''k'') (buffer_of_bytes ''v2'')
          \<lparr>maj_stat = 0, min_stat = 7\<rparr>]"
  by (simp add: set_name_attribute_def call_set_name_attribute_def stub_simps)

text \<open>
  Claim C10.  With an empty value sequence \<^verbatim>\<open>set_name_attribute\<close> returns normally and
  leaves the world as it was: no native call is made (so the attribute is not marked
  complete) and nothing is raised, whatever the counter held and whatever \<^verbatim>\<open>complete\<close> is.
\<close>

theorem set_name_attribute_empty:
  "set_name_attribute L (Some name) (Some attr) (Some []) complete i0 w = (Inr (), w)"
  by (simp add: set_name_attribute_def)

section \<open>\<^verbatim>\<open>get_name_attribute\<close>: the pagination protocol\<close>


lemma trace_release_buffer:
  "trace (release_buffer L b w)
     = trace w @ [Ev_release_buffer b (fst (gss_release_buffer L (native w) b))]"
  by (simp add: release_buffer_def emit_def split_def Let_def)


lemma native_release_buffer:
  "native (release_buffer L b w) = snd (gss_release_buffer L (native w) b)"
  by (simp add: release_buffer_def emit_def split_def Let_def)

lemma call_get_name_attribute_eq:
  "call_get_name_attribute L name ab m w
     = (fst (gss_get_name_attribute L (native w) name ab m),
        emit (Ev_get_name_attribute name ab m (fst (gss_get_name_attribute L (native w) name ab m)))
          (w\<lparr>native := snd (gss_get_name_attribute L (native w) name ab m)\<rparr>))"
  by (simp add: call_get_name_attribute_def split_def Let_def)

lemma native_replies_last_call:
  assumes "maj_stat (fst (gss_get_name_attribute L s name ab m)) \<noteq> GSS_S_COMPLETE
           \<or> get_more (fst (gss_get_name_attribute L s name ab m)) = 0"
  shows "native_replies (Suc n) L name ab m s = [fst (gss_get_name_attribute L s name ab m)]"
  using assms by (auto simp: split_def Let_def)

lemma native_replies_next_call:
  assumes "maj_stat (fst (gss_get_name_attribute L s name ab m)) = GSS_S_COMPLETE"
    and "get_more (fst (gss_get_name_attribute L s name ab m)) \<noteq> 0"
  shows "native_replies (Suc n) L name ab m s
           = fst (gss_get_name_attribute L s name ab m)
             # native_replies n L name ab
                 (get_more (fst (gss_get_name_attribute L s name ab m)))
                 (snd (gss_release_buffer L
                    (snd (gss_release_buffer L (snd (gss_get_name_attribute L s name ab m))
                       (get_value (fst (gss_get_name_attribute L s name ab m)))))
                    (get_display_value (fst (gss_get_name_attribute L s name ab m)))))"
  using assms by (simp add: split_def Let_def)

lemma native_replies_butlast:
  "\<forall>r \<in> set (butlast (native_replies n L name ab m s)).
      maj_stat r = GSS_S_COMPLETE \<and> get_more r \<noteq> 0"
proof (induction n arbitrary: m s)
  case 0
  then show ?case by simp
next
  case (Suc n)
  show ?case
  proof (cases "maj_stat (fst (gss_get_name_attribute L s name ab m)) = GSS_S_COMPLETE
                \<and> get_more (fst (gss_get_name_attribute L s name ab m)) \<noteq> 0")
    case True
    then show ?thesis using Suc.IH
      by (simp add: native_replies_next_call del: native_replies.simps)
  next
    case False
    then have "native_replies (Suc n) L name ab m s
                 = [fst (gss_get_name_attribute L s name ab m)]"
      by (intro native_replies_last_call) auto
    then show ?thesis by simp
  qed
qed

lemma call_get_name_attribute_parts:
  "fst (call_get_name_attribute L name ab m w) = fst (gss_get_name_attribute L (native w) name ab m)"
  "native (snd (call_get_name_attribute L name ab m w))
     = snd (gss_get_name_attribute L (native w) name ab m)"
  "trace (snd (call_get_name_attribute L name ab m w))
     = trace w @ [Ev_get_name_attribute name ab m
                    (fst (gss_get_name_attribute L (native w) name ab m))]"
  by (simp_all add: call_get_name_attribute_eq emit_def)

lemma get_name_attribute_loop_stop:
  "get_name_attribute_loop L name ab 0 pv pd a c w = Some (Inr (pv, pd, bint a, bint c), w)"
  by (subst get_name_attribute_loop.simps) simp

lemma get_name_attribute_loop_fail:
  assumes "m \<noteq> 0"
    and "maj_stat (fst (call_get_name_attribute L name ab m w)) \<noteq> GSS_S_COMPLETE"
  shows "get_name_attribute_loop L name ab m pv pd a c w
           = Some (Inl (GSSError (maj_stat (fst (call_get_name_attribute L name ab m w)))
                          (min_stat (fst (call_get_name_attribute L name ab m w)))),
                   snd (call_get_name_attribute L name ab m w))"
  using assms by (subst get_name_attribute_loop.simps) (simp add: split_def Let_def)

lemma get_name_attribute_loop_step:
  assumes "m \<noteq> 0"
    and "maj_stat (fst (call_get_name_attribute L name ab m w)) = GSS_S_COMPLETE"
  shows "get_name_attribute_loop L name ab m pv pd a c w
           = get_name_attribute_loop L name ab
               (get_more (fst (call_get_name_attribute L name ab m w)))
               (pv @ [bytes_of_buffer (get_value (fst (call_get_name_attribute L name ab m w)))])
               (pd @ [bytes_of_buffer
                        (get_display_value (fst (call_get_name_attribute L name ab m w)))])
               (get_authenticated (fst (call_get_name_attribute L name ab m w)))
               (get_complete (fst (call_get_name_attribute L name ab m w)))
               (release_buffer L (get_display_value (fst (call_get_name_attribute L name ab m w)))
                  (release_buffer L (get_value (fst (call_get_name_attribute L name ab m w)))
                     (snd (call_get_name_attribute L name ab m w))))"
  using assms by (subst get_name_attribute_loop.simps) (simp add: split_def Let_def)

lemma get_name_attribute_loop_drains:
  assumes "m \<noteq> 0"
    and "drained (native_replies (Suc n) L name ab m (native w))"
  shows "\<exists>w' evs.
           get_name_attribute_loop L name ab m pv pd a c w
             = Some (drain_result pv pd (native_replies (Suc n) L name ab m (native w)), w')
           \<and> trace w' = trace w @ evs
           \<and> map forget_release_status evs
               = get_name_attribute_protocol name ab m
                   (native_replies (Suc n) L name ab m (native w))"
  using assms
proof (induction n arbitrary: m pv pd a c w)
  case 0
  define r where "r = fst (call_get_name_attribute L name ab m w)"
  define w1 where "w1 = snd (call_get_name_attribute L name ab m w)"
  define w3 where
    "w3 = release_buffer L (get_display_value r) (release_buffer L (get_value r) w1)"
  have r: "r = fst (gss_get_name_attribute L (native w) name ab m)"
    by (simp add: r_def call_get_name_attribute_parts)
  have rs: "native_replies (Suc 0) L name ab m (native w) = [r]"
    by (simp add: r split_def Let_def)
  have tr1: "trace w1 = trace w @ [Ev_get_name_attribute name ab m r]"
    by (simp add: w1_def r call_get_name_attribute_parts)
  have stop: "maj_stat r \<noteq> GSS_S_COMPLETE \<or> get_more r = 0"
    using "0.prems"(2) by (simp add: rs drained_def del: native_replies.simps)
  show ?case
  proof (cases "maj_stat r = GSS_S_COMPLETE")
    case False
    have "get_name_attribute_loop L name ab m pv pd a c w
            = Some (Inl (GSSError (maj_stat r) (min_stat r)), w1)"
      using get_name_attribute_loop_fail[OF "0.prems"(1), of L name ab w] False
      by (simp add: r_def w1_def)
    then show ?thesis using False tr1 unfolding rs
      by (intro exI[of _ w1] exI[of _ "[Ev_get_name_attribute name ab m r]"])
         (simp add: drain_result_def)
  next
    case True
    then have more: "get_more r = 0" using stop by simp
    have "get_name_attribute_loop L name ab m pv pd a c w
            = get_name_attribute_loop L name ab (get_more r)
                (pv @ [bytes_of_buffer (get_value r)])
                (pd @ [bytes_of_buffer (get_display_value r)])
                (get_authenticated r) (get_complete r) w3"
      using get_name_attribute_loop_step[OF "0.prems"(1), of L name ab w] True
      by (simp add: r_def w1_def w3_def)
    then have run: "get_name_attribute_loop L name ab m pv pd a c w
            = Some (Inr (pv @ [bytes_of_buffer (get_value r)],
                         pd @ [bytes_of_buffer (get_display_value r)],
                         bint (get_authenticated r), bint (get_complete r)), w3)"
      by (simp add: more get_name_attribute_loop_stop)
    obtain st1 st2 where tr3: "trace w3 = trace w @ [Ev_get_name_attribute name ab m r,
        Ev_release_buffer (get_value r) st1, Ev_release_buffer (get_display_value r) st2]"
      by (simp add: w3_def trace_release_buffer tr1)
    show ?thesis using run True tr3 unfolding rs
      by (intro exI[of _ w3] exI[of _ "[Ev_get_name_attribute name ab m r,
            Ev_release_buffer (get_value r) st1, Ev_release_buffer (get_display_value r) st2]"])
         (simp add: drain_result_def)
  qed
next
  case (Suc n)
  define r where "r = fst (call_get_name_attribute L name ab m w)"
  define w1 where "w1 = snd (call_get_name_attribute L name ab m w)"
  define w3 where
    "w3 = release_buffer L (get_display_value r) (release_buffer L (get_value r) w1)"
  have r: "r = fst (gss_get_name_attribute L (native w) name ab m)"
    by (simp add: r_def call_get_name_attribute_parts)
  have tr1: "trace w1 = trace w @ [Ev_get_name_attribute name ab m r]"
    by (simp add: w1_def r call_get_name_attribute_parts)
  show ?case
  proof (cases "maj_stat r = GSS_S_COMPLETE \<and> get_more r \<noteq> 0")
    case False
    then have same: "native_replies (Suc (Suc n)) L name ab m (native w)
                       = native_replies (Suc 0) L name ab m (native w)"
      using native_replies_last_call[of L "native w" name ab m] by (auto simp: r)
    have "drained (native_replies (Suc 0) L name ab m (native w))"
      using Suc.prems(2) unfolding same .
    have base: "\<exists>w' evs.
           get_name_attribute_loop L name ab m pv pd a c w
             = Some (drain_result pv pd (native_replies (Suc 0) L name ab m (native w)), w')
           \<and> trace w' = trace w @ evs
           \<and> map forget_release_status evs
               = get_name_attribute_protocol name ab m
                   (native_replies (Suc 0) L name ab m (native w))"
    proof (cases "maj_stat r = GSS_S_COMPLETE")
      case fail: False
      have rs: "native_replies (Suc 0) L name ab m (native w) = [r]"
        by (simp add: r split_def Let_def)
      have "get_name_attribute_loop L name ab m pv pd a c w
              = Some (Inl (GSSError (maj_stat r) (min_stat r)), w1)"
        using get_name_attribute_loop_fail[OF Suc.prems(1), of L name ab w] fail
        by (simp add: r_def w1_def)
      then show ?thesis using fail tr1 unfolding rs
        by (intro exI[of _ w1] exI[of _ "[Ev_get_name_attribute name ab m r]"])
           (simp add: drain_result_def)
    next
      case ok: True
      then have more: "get_more r = 0" using False by simp
      have rs: "native_replies (Suc 0) L name ab m (native w) = [r]"
        by (simp add: r split_def Let_def)
      have "get_name_attribute_loop L name ab m pv pd a c w
              = get_name_attribute_loop L name ab (get_more r)
                  (pv @ [bytes_of_buffer (get_value r)])
                  (pd @ [bytes_of_buffer (get_display_value r)])
                  (get_authenticated r) (get_complete r) w3"
        using get_name_attribute_loop_step[OF Suc.prems(1), of L name ab w] ok
        by (simp add: r_def w1_def w3_def)
      then have run: "get_name_attribute_loop L name ab m pv pd a c w
              = Some (Inr (pv @ [bytes_of_buffer (get_value r)],
                           pd @ [bytes_of_buffer (get_display_value r)],
                           bint (get_authenticated r), bint (get_complete r)), w3)"
        by (simp add: more get_name_attribute_loop_stop)
      obtain st1 st2 where tr3: "trace w3 = trace w @ [Ev_get_name_attribute name ab m r,
          Ev_release_buffer (get_value r) st1, Ev_release_buffer (get_display_value r) st2]"
        by (simp add: w3_def trace_release_buffer tr1)
      show ?thesis using run ok tr3 unfolding rs
        by (intro exI[of _ w3] exI[of _ "[Ev_get_name_attribute name ab m r,
              Ev_release_buffer (get_value r) st1, Ev_release_buffer (get_display_value r) st2]"])
           (simp add: drain_result_def)
    qed
    then show ?thesis unfolding same .
  next
    case True
    have nat3: "native w3 = snd (gss_release_buffer L
                    (snd (gss_release_buffer L (snd (gss_get_name_attribute L (native w) name ab m))
                       (get_value r)))
                    (get_display_value r))"
      by (simp add: w3_def w1_def native_release_buffer call_get_name_attribute_parts)
    have rs: "native_replies (Suc (Suc n)) L name ab m (native w)
                = r # native_replies (Suc n) L name ab (get_more r) (native w3)"
      using native_replies_next_call[of L "native w" name ab m "Suc n"] True
      by (simp add: r[symmetric] nat3 del: native_replies.simps)
    let ?rs' = "native_replies (Suc n) L name ab (get_more r) (native w3)"
    have ne: "?rs' \<noteq> []" by (simp add: split_def Let_def)
    have dr: "drained ?rs'"
      using Suc.prems(2) ne unfolding rs by (simp add: drained_def del: native_replies.simps)
    from Suc.IH[OF _ dr, of "pv @ [bytes_of_buffer (get_value r)]"
        "pd @ [bytes_of_buffer (get_display_value r)]" "get_authenticated r" "get_complete r"]
      True
    obtain w' evs where
      ih: "get_name_attribute_loop L name ab (get_more r)
             (pv @ [bytes_of_buffer (get_value r)])
             (pd @ [bytes_of_buffer (get_display_value r)])
             (get_authenticated r) (get_complete r) w3
           = Some (drain_result (pv @ [bytes_of_buffer (get_value r)])
                     (pd @ [bytes_of_buffer (get_display_value r)]) ?rs', w')"
          "trace w' = trace w3 @ evs"
          "map forget_release_status evs
             = get_name_attribute_protocol name ab (get_more r) ?rs'"
      by blast
    have step: "get_name_attribute_loop L name ab m pv pd a c w
            = get_name_attribute_loop L name ab (get_more r)
                (pv @ [bytes_of_buffer (get_value r)])
                (pd @ [bytes_of_buffer (get_display_value r)])
                (get_authenticated r) (get_complete r) w3"
      using get_name_attribute_loop_step[OF Suc.prems(1), of L name ab w] True
      by (simp add: r_def w1_def w3_def)
    have res: "drain_result (pv @ [bytes_of_buffer (get_value r)])
                 (pd @ [bytes_of_buffer (get_display_value r)]) ?rs'
               = drain_result pv pd (r # ?rs')"
      using ne by (simp add: drain_result_def del: native_replies.simps)
    obtain st1 st2 where tr3: "trace w3 = trace w @ [Ev_get_name_attribute name ab m r,
        Ev_release_buffer (get_value r) st1, Ev_release_buffer (get_display_value r) st2]"
      by (simp add: w3_def trace_release_buffer tr1)
    have run: "get_name_attribute_loop L name ab m pv pd a c w
                 = Some (drain_result pv pd (r # ?rs'), w')"
      using step ih(1) res by simp
    have tr: "trace w' = trace w @ ([Ev_get_name_attribute name ab m r,
        Ev_release_buffer (get_value r) st1, Ev_release_buffer (get_display_value r) st2] @ evs)"
      using ih(2) tr3 by simp
    have pr: "map forget_release_status ([Ev_get_name_attribute name ab m r,
        Ev_release_buffer (get_value r) st1, Ev_release_buffer (get_display_value r) st2] @ evs)
        = get_name_attribute_protocol name ab m (r # ?rs')"
      using ih(3) True by (simp del: native_replies.simps)
    show ?thesis unfolding rs using run tr pr by blast
  qed
qed

lemma get_name_attribute_loop_returned:
  assumes "get_name_attribute_loop L name ab m pv pd a c w = Some y"
  shows "m \<noteq> 0 \<longrightarrow> (\<exists>n. drained (native_replies (Suc n) L name ab m (native w)))"
proof (induction L name ab m pv pd a c w y rule: get_name_attribute_loop.raw_induct)
  case (1 loop L name ab m pv pd a c w y)
  show ?case
  proof
    assume m: "m \<noteq> 0"
    define r where "r = fst (call_get_name_attribute L name ab m w)"
    define w1 where "w1 = snd (call_get_name_attribute L name ab m w)"
    define w3 where
      "w3 = release_buffer L (get_display_value r) (release_buffer L (get_value r) w1)"
    have r: "r = fst (gss_get_name_attribute L (native w) name ab m)"
      by (simp add: r_def call_get_name_attribute_parts)
    show "\<exists>n. drained (native_replies (Suc n) L name ab m (native w))"
    proof (cases "maj_stat r = GSS_S_COMPLETE \<and> get_more r \<noteq> 0")
      case False
      have "native_replies (Suc 0) L name ab m (native w) = [r]"
        by (simp add: r split_def Let_def)
      then have "drained (native_replies (Suc 0) L name ab m (native w))"
        using False by (simp add: drained_def del: native_replies.simps)
      then show ?thesis by blast
    next
      case True
      have "loop L name ab (get_more r) (pv @ [bytes_of_buffer (get_value r)])
              (pd @ [bytes_of_buffer (get_display_value r)])
              (get_authenticated r) (get_complete r) w3 = Some y"
        using "1.hyps" m True by (simp add: split_def Let_def r_def w1_def w3_def)
      from "1.IH"[OF this] True obtain n where
        dr: "drained (native_replies (Suc n) L name ab (get_more r) (native w3))"
        by blast
      have nat3: "native w3 = snd (gss_release_buffer L
                    (snd (gss_release_buffer L (snd (gss_get_name_attribute L (native w) name ab m))
                       (get_value r)))
                    (get_display_value r))"
        by (simp add: w3_def w1_def native_release_buffer call_get_name_attribute_parts)
      have rs: "native_replies (Suc (Suc n)) L name ab m (native w)
                  = r # native_replies (Suc n) L name ab (get_more r) (native w3)"
        using native_replies_next_call[of L "native w" name ab m "Suc n"] True
        by (simp add: r[symmetric] nat3 del: native_replies.simps)
      have "drained (native_replies (Suc (Suc n)) L name ab m (native w))"
        using dr unfolding rs by (simp add: drained_def del: native_replies.simps)
      then show ?thesis by blast
    qed
  qed
qed (rule assms)

lemma get_name_attribute_drains:
  assumes "drained (native_replies (Suc n) L name (buffer_of_bytes attr) (- 1) (native w))"
  shows "\<exists>w'. get_name_attribute L (Some name) (Some attr) more_arg authenticated0 complete0 w
                = Some (drain_result [] []
                          (native_replies (Suc n) L name (buffer_of_bytes attr) (- 1) (native w)),
                        w')
              \<and> extends w w'
              \<and> map forget_release_status (new_events w w')
                  = get_name_attribute_protocol name (buffer_of_bytes attr) (- 1)
                      (native_replies (Suc n) L name (buffer_of_bytes attr) (- 1) (native w))"
proof -
  have "(- 1 :: c_int) \<noteq> 0" by simp
  from get_name_attribute_loop_drains[OF this assms, of "[]" "[]" authenticated0 complete0]
  obtain w' evs where
    run: "get_name_attribute_loop L name (buffer_of_bytes attr) (- 1) [] [] authenticated0
            complete0 w
          = Some (drain_result [] []
                    (native_replies (Suc n) L name (buffer_of_bytes attr) (- 1) (native w)), w')"
    and tr: "trace w' = trace w @ evs"
    and pr: "map forget_release_status evs
              = get_name_attribute_protocol name (buffer_of_bytes attr) (- 1)
                  (native_replies (Suc n) L name (buffer_of_bytes attr) (- 1) (native w))"
    by blast
  have "extends w w'" "new_events w w' = evs"
    using tr by (simp_all add: extends_def new_events_def)
  then show ?thesis using run pr
    by (intro exI[of _ w']) (simp add: get_name_attribute_def del: native_replies.simps)
qed

lemma get_name_attribute_returned:
  assumes "get_name_attribute L (Some name) (Some attr) more_arg authenticated0 complete0 w
             = Some y"
  shows "\<exists>n. drained (native_replies (Suc n) L name (buffer_of_bytes attr) (- 1) (native w))"
proof -
  have "get_name_attribute_loop L name (buffer_of_bytes attr) (- 1) [] [] authenticated0
          complete0 w = Some y"
    using assms by (simp add: get_name_attribute_def)
  from get_name_attribute_loop_returned[OF this] show ?thesis by simp
qed

lemma get_name_attribute_drained_result:
  "let rs = native_replies (Suc n) L name (buffer_of_bytes attr) (- 1) (native w)
   in maj_stat (last rs) = GSS_S_COMPLETE \<and> get_more (last rs) = 0 \<longrightarrow>
      rs \<noteq> []
      \<and> (\<forall>r \<in> set rs. maj_stat r = GSS_S_COMPLETE)
      \<and> (\<forall>r \<in> set (butlast rs). get_more r \<noteq> 0)
      \<and> (\<exists>w'. get_name_attribute L (Some name) (Some attr) more_arg authenticated0 complete0 w
                  = Some (Inr (map (\<lambda>r. bytes_of_buffer (get_value r)) rs,
                               map (\<lambda>r. bytes_of_buffer (get_display_value r)) rs,
                               bint (get_authenticated (last rs)),
                               bint (get_complete (last rs))), w')
                \<and> extends w w'
                \<and> map forget_release_status (new_events w w')
                    = get_name_attribute_protocol name (buffer_of_bytes attr) (- 1) rs)"
proof -
  define rs where "rs = native_replies (Suc n) L name (buffer_of_bytes attr) (- 1) (native w)"
  have ne: "rs \<noteq> []" by (simp add: rs_def split_def Let_def)
  have bl: "\<forall>r \<in> set (butlast rs). maj_stat r = GSS_S_COMPLETE \<and> get_more r \<noteq> 0"
    unfolding rs_def by (rule native_replies_butlast)
  have goal: "rs \<noteq> []
      \<and> (\<forall>r \<in> set rs. maj_stat r = GSS_S_COMPLETE)
      \<and> (\<forall>r \<in> set (butlast rs). get_more r \<noteq> 0)
      \<and> (\<exists>w'. get_name_attribute L (Some name) (Some attr) more_arg authenticated0 complete0 w
                  = Some (Inr (map (\<lambda>r. bytes_of_buffer (get_value r)) rs,
                               map (\<lambda>r. bytes_of_buffer (get_display_value r)) rs,
                               bint (get_authenticated (last rs)),
                               bint (get_complete (last rs))), w')
                \<and> extends w w'
                \<and> map forget_release_status (new_events w w')
                    = get_name_attribute_protocol name (buffer_of_bytes attr) (- 1) rs)"
    if ok: "maj_stat (last rs) = GSS_S_COMPLETE" and fin: "get_more (last rs) = 0"
  proof -
    have "drained rs" using ne fin by (simp add: drained_def)
    from get_name_attribute_drains[OF this[unfolded rs_def], folded rs_def] obtain w' where
      w': "get_name_attribute L (Some name) (Some attr) more_arg authenticated0 complete0 w
             = Some (drain_result [] [] rs, w')"
          "extends w w'"
          "map forget_release_status (new_events w w')
             = get_name_attribute_protocol name (buffer_of_bytes attr) (- 1) rs"
      by blast
    have split: "set rs = set (butlast rs) \<union> {last rs}"
    proof -
      have "set rs = set (butlast rs @ [last rs])" using ne by simp
      then show ?thesis by (simp only: set_append list.set Un_commute)
    qed
    have all: "\<forall>r \<in> set rs. maj_stat r = GSS_S_COMPLETE"
    proof
      fix r assume "r \<in> set rs"
      then have "r \<in> set (butlast rs) \<or> r = last rs" unfolding split by blast
      then show "maj_stat r = GSS_S_COMPLETE"
      proof
        assume "r \<in> set (butlast rs)"
        with bl have "maj_stat r = GSS_S_COMPLETE \<and> get_more r \<noteq> 0" by (rule bspec)
        then show ?thesis by (rule conjunct1)
      next
        assume "r = last rs"
        with ok show ?thesis by simp
      qed
    qed
    have bl2: "\<forall>r \<in> set (butlast rs). get_more r \<noteq> 0"
    proof
      fix r assume "r \<in> set (butlast rs)"
      with bl have "maj_stat r = GSS_S_COMPLETE \<and> get_more r \<noteq> 0" by (rule bspec)
      then show "get_more r \<noteq> 0" by (rule conjunct2)
    qed
    have res: "drain_result [] [] rs
                 = Inr (map (\<lambda>r. bytes_of_buffer (get_value r)) rs,
                        map (\<lambda>r. bytes_of_buffer (get_display_value r)) rs,
                        bint (get_authenticated (last rs)), bint (get_complete (last rs)))"
      using ok by (simp add: drain_result_def)
    show ?thesis
      apply (intro conjI)
         apply (rule ne)
        apply (rule all)
       apply (rule bl2)
      apply (rule exI[of _ w'])
      apply (intro conjI)
        apply (simp only: w'(1) res)
       apply (rule w'(2))
      apply (rule w'(3))
      done
  qed
  show ?thesis unfolding Let_def rs_def[symmetric]
    by (intro impI, elim conjE, rule goal)
qed

lemma get_name_attribute_result_drained:
  assumes "get_name_attribute L (Some name) (Some attr) more_arg authenticated0 complete0 w
             = Some (Inr res, w')"
  shows "\<exists>n. let rs = native_replies (Suc n) L name (buffer_of_bytes attr) (- 1) (native w)
             in maj_stat (last rs) = GSS_S_COMPLETE \<and> get_more (last rs) = 0
                \<and> res = (map (\<lambda>r. bytes_of_buffer (get_value r)) rs,
                         map (\<lambda>r. bytes_of_buffer (get_display_value r)) rs,
                         bint (get_authenticated (last rs)), bint (get_complete (last rs)))
                \<and> extends w w'
                \<and> map forget_release_status (new_events w w')
                    = get_name_attribute_protocol name (buffer_of_bytes attr) (- 1) rs"
proof -
  from get_name_attribute_returned[OF assms] obtain n where
    dr: "drained (native_replies (Suc n) L name (buffer_of_bytes attr) (- 1) (native w))"
    by blast
  define rs where "rs = native_replies (Suc n) L name (buffer_of_bytes attr) (- 1) (native w)"
  from get_name_attribute_drains[OF dr, folded rs_def] obtain w'' where
    w'': "get_name_attribute L (Some name) (Some attr) more_arg authenticated0 complete0 w
             = Some (drain_result [] [] rs, w'')"
         "extends w w''"
         "map forget_release_status (new_events w w'')
            = get_name_attribute_protocol name (buffer_of_bytes attr) (- 1) rs"
    by blast
  have eq: "drain_result [] [] rs = Inr res" "w'' = w'" using assms w''(1) by simp_all
  have ok: "maj_stat (last rs) = GSS_S_COMPLETE"
    using eq(1) by (simp add: drain_result_def split: if_splits)
  have fin: "get_more (last rs) = 0" using dr ok by (simp add: drained_def rs_def)
  have res: "res = (map (\<lambda>r. bytes_of_buffer (get_value r)) rs,
                    map (\<lambda>r. bytes_of_buffer (get_display_value r)) rs,
                    bint (get_authenticated (last rs)), bint (get_complete (last rs)))"
    using eq(1) ok by (simp add: drain_result_def)
  have "let rs = native_replies (Suc n) L name (buffer_of_bytes attr) (- 1) (native w)
        in maj_stat (last rs) = GSS_S_COMPLETE \<and> get_more (last rs) = 0
           \<and> res = (map (\<lambda>r. bytes_of_buffer (get_value r)) rs,
                    map (\<lambda>r. bytes_of_buffer (get_display_value r)) rs,
                    bint (get_authenticated (last rs)), bint (get_complete (last rs)))
           \<and> extends w w'
           \<and> map forget_release_status (new_events w w')
               = get_name_attribute_protocol name (buffer_of_bytes attr) (- 1) rs"
    unfolding Let_def rs_def[symmetric] using ok fin res w''(2,3) eq(2) by simp
  then show ?thesis ..
qed

text \<open>
  Claim C2.  Let the native library be drained from the continuation flag \<open>- 1\<close>: call
  after call, each with the flag the previous reply left.  As soon as \<open>n + 1\<close> calls
  bring a successful reply that leaves the flag at zero, \<^verbatim>\<open>get_name_attribute\<close> returns: it
  has made exactly those calls (at least one), each followed by the release of its two
  output buffers, all of them succeeded, every reply but the last left a non-zero flag,
  and the result holds the raw and display values of the replies in order and the
  authenticated and complete flags of the last reply.  And every result that
  \<^verbatim>\<open>get_name_attribute\<close> returns is returned in this way.
\<close>

theorem get_name_attribute_pagination:
  "(\<forall>n. let rs = native_replies (Suc n) L name (buffer_of_bytes attr) (- 1) (native w)
        in maj_stat (last rs) = GSS_S_COMPLETE \<and> get_more (last rs) = 0 \<longrightarrow>
           rs \<noteq> []
           \<and> (\<forall>r \<in> set rs. maj_stat r = GSS_S_COMPLETE)
           \<and> (\<forall>r \<in> set (butlast rs). get_more r \<noteq> 0)
           \<and> (\<exists>w'. get_name_attribute L (Some name) (Some attr) more_arg authenticated0
                       complete0 w
                       = Some (Inr (map (\<lambda>r. bytes_of_buffer (get_value r)) rs,
                                    map (\<lambda>r. bytes_of_buffer (get_display_value r)) rs,
                                    bint (get_authenticated (last rs)),
                                    bint (get_complete (last rs))), w')
                     \<and> extends w w'
                     \<and> map forget_release_status (new_events w w')
                         = get_name_attribute_protocol name (buffer_of_bytes attr) (- 1) rs))
   \<and> (\<forall>res w'.
         get_name_attribute L (Some name) (Some attr) more_arg authenticated0 complete0 w
           = Some (Inr res, w') \<longrightarrow>
         (\<exists>n. let rs = native_replies (Suc n) L name (buffer_of_bytes attr) (- 1) (native w)
              in maj_stat (last rs) = GSS_S_COMPLETE \<and> get_more (last rs) = 0
                 \<and> res = (map (\<lambda>r. bytes_of_buffer (get_value r)) rs,
                          map (\<lambda>r. bytes_of_buffer (get_display_value r)) rs,
                          bint (get_authenticated (last rs)), bint (get_complete (last rs)))
                 \<and> extends w w'
                 \<and> map forget_release_status (new_events w w')
                     = get_name_attribute_protocol name (buffer_of_bytes attr) (- 1) rs))"
  by (intro conjI allI impI)
     (rule get_name_attribute_drained_result, erule get_name_attribute_result_drained)

theorem get_name_attribute_pagination_witness:
  "native_replies (Suc (Suc 0)) (stub_library 0 0) 5 (buffer_of_bytes ''k'') (- 1) (native w0)
     = [\<lparr>maj_stat = 0, min_stat = 7, get_authenticated = 1, get_complete = 1,
          get_value = buffer_of_bytes ''v'', get_display_value = GSS_C_EMPTY_BUFFER,
          get_more = 1\<rparr>,
        \<lparr>maj_stat = 0, min_stat = 7, get_authenticated = 1, get_complete = 1,
          get_value = buffer_of_bytes ''v'', get_display_value = GSS_C_EMPTY_BUFFER,
          get_more = 0\<rparr>]
   \<and> (\<exists>w'. get_name_attribute (stub_library 0 0) (Some 5) (Some ''k'') None 9 9 w0
              = Some (Inr ([''v'', ''v''], [[], []], True, True), w')
            \<and> extends w0 w'
            \<and> map forget_release_status (new_events w0 w')
                = [Ev_get_name_attribute 5 (buffer_of_bytes ''k'') (- 1)
                     \<lparr>maj_stat = 0, min_stat = 7, get_authenticated = 1, get_complete = 1,
                       get_value = buffer_of_bytes ''v'',
                       get_display_value = GSS_C_EMPTY_BUFFER, get_more = 1\<rparr>,
                   Ev_release_buffer (buffer_of_bytes ''v'') \<lparr>maj_stat = 0, min_stat = 0\<rparr>,
                   Ev_release_buffer GSS_C_EMPTY_BUFFER \<lparr>maj_stat = 0, min_stat = 0\<rparr>,
                   Ev_get_name_attribute 5 (buffer_of_bytes ''k'') 1
                     \<lparr>maj_stat = 0, min_stat = 7, get_authenticated = 1, get_complete = 1,
                       get_value = buffer_of_bytes ''v'',
                       get_display_value = GSS_C_EMPTY_BUFFER, get_more = 0\<rparr>,
                   Ev_release_buffer (buffer_of_bytes ''v'') \<lparr>maj_stat = 0, min_stat = 0\<rparr>,
                   Ev_release_buffer GSS_C_EMPTY_BUFFER \<lparr>maj_stat = 0, min_stat = 0\<rparr>])"
proof -
  have rs: "native_replies (Suc (Suc 0)) (stub_library 0 0) 5 (buffer_of_bytes ''k'') (- 1)
              (native w0)
     = [\<lparr>maj_stat = 0, min_stat = 7, get_authenticated = 1, get_complete = 1,
          get_value = buffer_of_bytes ''v'', get_display_value = GSS_C_EMPTY_BUFFER,
          get_more = 1\<rparr>,
        \<lparr>maj_stat = 0, min_stat = 7, get_authenticated = 1, get_complete = 1,
          get_value = buffer_of_bytes ''v'', get_display_value = GSS_C_EMPTY_BUFFER,
          get_more = 0\<rparr>]"
    by (simp add: stub_library_sel w0_sel GSS_S_COMPLETE_def)
  note run = get_name_attribute_pagination[where L = "stub_library 0 0" and name = 5
      and attr = "''k''" and w = w0 and more_arg = None and ?authenticated0.0 = 9
      and ?complete0.0 = 9, THEN conjunct1, THEN spec[where x = "Suc 0"],
      unfolded Let_def rs]
  have "\<exists>w'. get_name_attribute (stub_library 0 0) (Some 5) (Some ''k'') None 9 9 w0
              = Some (Inr ([''v'', ''v''], [[], []], True, True), w')
            \<and> extends w0 w'
            \<and> map forget_release_status (new_events w0 w')
                = [Ev_get_name_attribute 5 (buffer_of_bytes ''k'') (- 1)
                     \<lparr>maj_stat = 0, min_stat = 7, get_authenticated = 1, get_complete = 1,
                       get_value = buffer_of_bytes ''v'',
                       get_display_value = GSS_C_EMPTY_BUFFER, get_more = 1\<rparr>,
                   Ev_release_buffer (buffer_of_bytes ''v'') \<lparr>maj_stat = 0, min_stat = 0\<rparr>,
                   Ev_release_buffer GSS_C_EMPTY_BUFFER \<lparr>maj_stat = 0, min_stat = 0\<rparr>,
                   Ev_get_name_attribute 5 (buffer_of_bytes ''k'') 1
                     \<lparr>maj_stat = 0, min_stat = 7, get_authenticated = 1, get_complete = 1,
                       get_value = buffer_of_bytes ''v'',
                       get_display_value = GSS_C_EMPTY_BUFFER, get_more = 0\<rparr>,
                   Ev_release_buffer (buffer_of_bytes ''v'') \<lparr>maj_stat = 0, min_stat = 0\<rparr>,
                   Ev_release_buffer GSS_C_EMPTY_BUFFER \<lparr>maj_stat = 0, min_stat = 0\<rparr>]"
    using run
    by (simp add: GSS_S_COMPLETE_def bytes_of_buffer_def buffer_of_bytes_def bint_def
          GSS_C_EMPTY_BUFFER_def unread_status_def)
  with rs show ?thesis by (rule conjI)
qed

section \<open>The status contract and the release discipline, wrapper by wrapper\<close>









































text \<open>
  The source does not read what a release call returns: here \<^verbatim>\<open>gss_release_buffer\<close>
  reports \<open>0xD0000\<close> to \<^verbatim>\<open>wrap_aead\<close>, which returns its result all the same.  This is why
  the status contract leaves the release calls out.
\<close>

lemma release_status_not_read:
  "fst (wrap_aead (stub_library 0 0xD0000) (Some 1) (Some ''msg'') None True None w0)
     = Inr (''sealed'', True)
   \<and> trace (snd (wrap_aead (stub_library 0 0xD0000) (Some 1) (Some ''msg'') None True None w0))
       = [Ev_wrap_aead 1 1 0 None (buffer_of_bytes ''msg'')
            \<lparr>maj_stat = 0, min_stat = 7, wrap_conf_ret = 1,
              wrap_output_message_buffer = buffer_of_bytes ''sealed''\<rparr>,
          Ev_release_buffer (buffer_of_bytes ''sealed'') \<lparr>maj_stat = 0xD0000, min_stat = 0\<rparr>]
   \<and> map reported_major
         (trace (snd (wrap_aead (stub_library 0 0xD0000) (Some 1) (Some ''msg'') None True None
                        w0)))
       = [Some GSS_S_COMPLETE, Some 0xD0000]"
  by (simp add: wrap_aead_def call_wrap_aead_def release_buffer_def stub_simps)





section \<open>What each wrapper passes and returns\<close>

lemmas run_defs = extends_def new_events_def release_buffer_def release_buffer_set_def emit_def
  new_Creds_def Let_def split_def

text \<open>
  Claim C5.  With a \<^verbatim>\<open>usage\<close> other than \<^verbatim>\<open>'initiate'\<close>, \<^verbatim>\<open>'accept'\<close> and \<^verbatim>\<open>'both'\<close>,
  \<^verbatim>\<open>add_cred_with_password\<close> raises and leaves the world as it was, so no native call is
  made: the error is the \<^verbatim>\<open>ValueError\<close> of the usage check, or the \<^verbatim>\<open>TypeError\<close> of the
  argument check when one of the four arguments declared \<^verbatim>\<open>not None\<close> is \<^verbatim>\<open>None\<close>.  With
  one of the three literals (and lifetimes that convert) exactly one
  \<^verbatim>\<open>gss_add_cred_with_password\<close> call is made, and it carries \<^verbatim>\<open>GSS_C_INITIATE\<close>,
  \<^verbatim>\<open>GSS_C_ACCEPT\<close> or \<^verbatim>\<open>GSS_C_BOTH\<close> respectively.
\<close>

theorem usage_validation:
  "(usage \<notin> {''initiate'', ''accept'', ''both''} \<longrightarrow>
      add_cred_with_password L input_cred name mech password usage init_lifetime
        accept_lifetime w
      = (Inl (if input_cred = None \<or> name = None \<or> mech = None \<or> password = None
              then TypeError else ValueError (invalid_usage_message usage)), w))
   \<and> (c_py_ttl_to_c L init_lifetime \<noteq> None \<and> c_py_ttl_to_c L accept_lifetime \<noteq> None \<longrightarrow>
        cred_usages (new_events w (snd (add_cred_with_password L (Some c) (Some n) (Some m)
          (Some pw) ''initiate'' init_lifetime accept_lifetime w))) = [GSS_C_INITIATE]
        \<and> cred_usages (new_events w (snd (add_cred_with_password L (Some c) (Some n) (Some m)
          (Some pw) ''accept'' init_lifetime accept_lifetime w))) = [GSS_C_ACCEPT]
        \<and> cred_usages (new_events w (snd (add_cred_with_password L (Some c) (Some n) (Some m)
          (Some pw) ''both'' init_lifetime accept_lifetime w))) = [GSS_C_BOTH])"
proof (intro conjI impI)
  assume "usage \<notin> {''initiate'', ''accept'', ''both''}"
  then show "add_cred_with_password L input_cred name mech password usage init_lifetime
        accept_lifetime w
      = (Inl (if input_cred = None \<or> name = None \<or> mech = None \<or> password = None
              then TypeError else ValueError (invalid_usage_message usage)), w)"
    by (cases input_cred; cases name; cases mech; cases password)
       (simp_all add: add_cred_with_password_def)
next
  assume "c_py_ttl_to_c L init_lifetime \<noteq> None \<and> c_py_ttl_to_c L accept_lifetime \<noteq> None"
  then obtain it at where
    ttl: "c_py_ttl_to_c L init_lifetime = Some it" "c_py_ttl_to_c L accept_lifetime = Some at"
    by auto
  show "cred_usages (new_events w (snd (add_cred_with_password L (Some c) (Some n) (Some m)
          (Some pw) ''initiate'' init_lifetime accept_lifetime w))) = [GSS_C_INITIATE]"
    by (simp add: add_cred_with_password_def call_add_cred_with_password_def cred_usages_def
          ttl run_defs)
  show "cred_usages (new_events w (snd (add_cred_with_password L (Some c) (Some n) (Some m)
          (Some pw) ''accept'' init_lifetime accept_lifetime w))) = [GSS_C_ACCEPT]"
    by (simp add: add_cred_with_password_def call_add_cred_with_password_def cred_usages_def
          ttl run_defs)
  show "cred_usages (new_events w (snd (add_cred_with_password L (Some c) (Some n) (Some m)
          (Some pw) ''both'' init_lifetime accept_lifetime w))) = [GSS_C_BOTH]"
    by (simp add: add_cred_with_password_def call_add_cred_with_password_def cred_usages_def
          ttl run_defs)
qed


theorem usage_validation_witness:
  "''bogus'' \<notin> {''initiate'', ''accept'', ''both''}
   \<and> add_cred_with_password (stub_library 0 0) (Some 0) (Some 5) (Some ''krb5'') (Some ''pw'')
         ''bogus'' None None w1
       = (Inl (ValueError (invalid_usage_message ''bogus'')), w1)
   \<and> c_py_ttl_to_c (stub_library 0 0) None \<noteq> None
   \<and> cred_usages (new_events w1 (snd (add_cred_with_password (stub_library 0 0) (Some 0) (Some 5)
         (Some ''krb5'') (Some ''pw'') ''accept'' None None w1))) = [GSS_C_ACCEPT]"
  using usage_validation[where usage = "''bogus''" and L = "stub_library 0 0" and w = w1
      and input_cred = "Some 0" and name = "Some 5" and mech = "Some ''krb5''"
      and password = "Some ''pw''" and init_lifetime = None and accept_lifetime = None
      and c = 0 and n = 5 and m = "''krb5''" and pw = "''pw''"]
  by (simp add: stub_library_def)

text \<open>
  Claim C6 as stated fails: the signature declares \<^verbatim>\<open>Creds input_cred not None\<close>, so an
  absent input credential is refused with a \<^verbatim>\<open>TypeError\<close> and the operation does not
  proceed.
\<close>

theorem add_cred_absent_input_counterexample:
  "add_cred_with_password (stub_library 0 0) None (Some 5) (Some ''krb5'') (Some ''pw'')
     ''initiate'' None None w0 = (Inl TypeError, w0)"
  by (simp add: add_cred_with_password_def)

text \<open>
  Claim C6, amended.  \<^verbatim>\<open>add_cred_with_password\<close> refuses an absent (\<^verbatim>\<open>None\<close>) input
  credential with a \<^verbatim>\<open>TypeError\<close> before any native call.  With a credential object
  supplied (whatever native handle it holds, the null credential included), an accepted
  usage and lifetimes that convert, the handle of that object is what the native call
  receives; no \<^verbatim>\<open>Creds\<close> object is constructed before the native call; when the call
  succeeds one new \<^verbatim>\<open>Creds\<close> object is constructed after it, receives the handle the
  native call produced and is the credential returned; when the call fails none is
  constructed; the supplied object keeps its handle.
\<close>

theorem add_cred_with_password_creds:
  "add_cred_with_password L None name mech password usage init_lifetime accept_lifetime w
     = (Inl TypeError, w)
   \<and> (usage \<in> {''initiate'', ''accept'', ''both''}
        \<and> c_py_ttl_to_c L init_lifetime = Some ittl \<and> c_py_ttl_to_c L accept_lifetime = Some attl
      \<longrightarrow>
        (let out = add_cred_with_password L (Some c) (Some n) (Some m) (Some pw) usage
                     init_lifetime accept_lifetime w;
             c_usage = (if usage = ''initiate'' then GSS_C_INITIATE
                        else if usage = ''accept'' then GSS_C_ACCEPT else GSS_C_BOTH);
             reply = gss_add_cred_with_password L (native w) (creds_heap w c) n m
                       (buffer_of_bytes pw) c_usage ittl attl;
             r = fst reply
         in extends w (snd out)
            \<and> new_events w (snd out)
                = Ev_add_cred_with_password (creds_heap w c) n m (buffer_of_bytes pw) c_usage
                    ittl attl r
                  # (if maj_stat r = GSS_S_COMPLETE then [Ev_new_Creds (creds_next w)] else [])
            \<and> (if maj_stat r = GSS_S_COMPLETE
                then fst out = Inr (creds_next w,
                                    fst (c_create_oid_set L (snd reply) (add_actual_mechs r)),
                                    c_c_ttl_to_py L (add_actual_init_ttl r),
                                    c_c_ttl_to_py L (add_actual_accept_ttl r))
                     \<and> creds_heap (snd out) (creds_next w) = add_output_creds r
                     \<and> creds_next (snd out) = Suc (creds_next w)
                else fst out = Inl (GSSError (maj_stat r) (min_stat r))
                     \<and> creds_next (snd out) = creds_next w)
            \<and> (c < creds_next w \<longrightarrow> creds_heap (snd out) c = creds_heap w c)))"
proof (intro conjI impI)
  show "add_cred_with_password L None name mech password usage init_lifetime accept_lifetime w
     = (Inl TypeError, w)"
    by (simp add: add_cred_with_password_def)
next
  assume h: "usage \<in> {''initiate'', ''accept'', ''both''}
        \<and> c_py_ttl_to_c L init_lifetime = Some ittl \<and> c_py_ttl_to_c L accept_lifetime = Some attl"
  then consider "usage = ''initiate''" | "usage = ''accept''" | "usage = ''both''" by auto
  then show "let out = add_cred_with_password L (Some c) (Some n) (Some m) (Some pw) usage
                     init_lifetime accept_lifetime w;
             c_usage = (if usage = ''initiate'' then GSS_C_INITIATE
                        else if usage = ''accept'' then GSS_C_ACCEPT else GSS_C_BOTH);
             reply = gss_add_cred_with_password L (native w) (creds_heap w c) n m
                       (buffer_of_bytes pw) c_usage ittl attl;
             r = fst reply
         in extends w (snd out)
            \<and> new_events w (snd out)
                = Ev_add_cred_with_password (creds_heap w c) n m (buffer_of_bytes pw) c_usage
                    ittl attl r
                  # (if maj_stat r = GSS_S_COMPLETE then [Ev_new_Creds (creds_next w)] else [])
            \<and> (if maj_stat r = GSS_S_COMPLETE
                then fst out = Inr (creds_next w,
                                    fst (c_create_oid_set L (snd reply) (add_actual_mechs r)),
                                    c_c_ttl_to_py L (add_actual_init_ttl r),
                                    c_c_ttl_to_py L (add_actual_accept_ttl r))
                     \<and> creds_heap (snd out) (creds_next w) = add_output_creds r
                     \<and> creds_next (snd out) = Suc (creds_next w)
                else fst out = Inl (GSSError (maj_stat r) (min_stat r))
                     \<and> creds_next (snd out) = creds_next w)
            \<and> (c < creds_next w \<longrightarrow> creds_heap (snd out) c = creds_heap w c)"
  proof cases
    case 1
    then show ?thesis using h
      by (simp add: add_cred_with_password_def call_add_cred_with_password_def run_defs)
  next
    case 2
    then show ?thesis using h
      by (simp add: add_cred_with_password_def call_add_cred_with_password_def run_defs)
  next
    case 3
    then show ?thesis using h
      by (simp add: add_cred_with_password_def call_add_cred_with_password_def run_defs)
  qed
qed

theorem add_cred_with_password_creds_witness:
  "''initiate'' \<in> {''initiate'', ''accept'', ''both''}
   \<and> c_py_ttl_to_c (stub_library 0 0) None = Some 0xFFFFFFFF
   \<and> (0 :: nat) < creds_next w1
   \<and> new_events w1 (snd (add_cred_with_password (stub_library 0 0) (Some 0) (Some 5)
         (Some ''krb5'') (Some ''pw'') ''initiate'' None None w1))
       = [Ev_add_cred_with_password 17 5 ''krb5'' (buffer_of_bytes ''pw'') GSS_C_INITIATE
            0xFFFFFFFF 0xFFFFFFFF
            \<lparr>maj_stat = 0, min_stat = 7, add_output_creds = 42, add_actual_mechs = [''krb5''],
              add_actual_init_ttl = 0xFFFFFFFF, add_actual_accept_ttl = 0xFFFFFFFF\<rparr>,
          Ev_new_Creds 1]
   \<and> fst (add_cred_with_password (stub_library 0 0) (Some 0) (Some 5)
         (Some ''krb5'') (Some ''pw'') ''initiate'' None None w1)
       = Inr (1, [''krb5''], None, None)
   \<and> creds_heap (snd (add_cred_with_password (stub_library 0 0) (Some 0) (Some 5)
         (Some ''krb5'') (Some ''pw'') ''initiate'' None None w1)) 1 = 42
   \<and> creds_heap (snd (add_cred_with_password (stub_library 0 0) (Some 0) (Some 5)
         (Some ''krb5'') (Some ''pw'') ''initiate'' None None w1)) 0 = 17"
  using add_cred_with_password_creds[where L = "stub_library 0 0" and usage = "''initiate''"
      and init_lifetime = None and accept_lifetime = None and ittl = "0xFFFFFFFF"
      and attl = "0xFFFFFFFF" and c = 0 and n = 5 and m = "''krb5''" and pw = "''pw''"
      and w = w1]
  by (simp add: eval_simps)




text \<open>
  Claim C9.  Without \<^verbatim>\<open>creds\<close>, \<^verbatim>\<open>set_cred_option\<close> constructs a fresh \<^verbatim>\<open>Creds\<close> object
  before the native call, passes its handle, and on success returns that object.  With
  \<^verbatim>\<open>creds\<close> supplied no object is constructed, the native call receives the handle held by
  the supplied object, and on success the object returned is the supplied one.  In both
  cases the handle the native call leaves is stored in that same object.
\<close>

theorem set_cred_option_in_place:
  "(let value_buffer = (case val of Some v \<Rightarrow> buffer_of_bytes v | None \<Rightarrow> GSS_C_EMPTY_BUFFER);
        out = set_cred_option L (Some oid) None val w;
        fresh = creds_next w;
        r = fst (gss_set_cred_option L (native w) GSS_C_NO_CREDENTIAL oid value_buffer)
    in extends w (snd out)
       \<and> new_events w (snd out)
           = [Ev_new_Creds fresh, Ev_set_cred_option GSS_C_NO_CREDENTIAL oid value_buffer r]
       \<and> creds_next (snd out) = Suc fresh
       \<and> creds_heap (snd out) fresh = set_cred r
       \<and> (maj_stat r = GSS_S_COMPLETE \<longrightarrow> fst out = Inr fresh))
   \<and> (let value_buffer = (case val of Some v \<Rightarrow> buffer_of_bytes v | None \<Rightarrow> GSS_C_EMPTY_BUFFER);
          out = set_cred_option L (Some oid) (Some c) val w;
          r = fst (gss_set_cred_option L (native w) (creds_heap w c) oid value_buffer)
      in extends w (snd out)
         \<and> new_events w (snd out)
             = [Ev_set_cred_option (creds_heap w c) oid value_buffer r]
         \<and> creds_next (snd out) = creds_next w
         \<and> creds_heap (snd out) c = set_cred r
         \<and> (maj_stat r = GSS_S_COMPLETE \<longrightarrow> fst out = Inr c))"
  by (simp add: set_cred_option_def call_set_cred_option_def run_defs)


theorem set_cred_option_in_place_witness:
  "maj_stat (fst (gss_set_cred_option (stub_library 0 0) (native w1) GSS_C_NO_CREDENTIAL
       ''oid'' GSS_C_EMPTY_BUFFER)) = GSS_S_COMPLETE
   \<and> maj_stat (fst (gss_set_cred_option (stub_library 0 0) (native w1) (creds_heap w1 0)
       ''oid'' GSS_C_EMPTY_BUFFER)) = GSS_S_COMPLETE
   \<and> fst (set_cred_option (stub_library 0 0) (Some ''oid'') None None w1) = Inr 1
   \<and> new_events w1 (snd (set_cred_option (stub_library 0 0) (Some ''oid'') None None w1))
       = [Ev_new_Creds 1,
          Ev_set_cred_option 0 ''oid'' GSS_C_EMPTY_BUFFER
            \<lparr>maj_stat = 0, min_stat = 7, set_cred = 43\<rparr>]
   \<and> fst (set_cred_option (stub_library 0 0) (Some ''oid'') (Some 0) None w1) = Inr 0
   \<and> new_events w1 (snd (set_cred_option (stub_library 0 0) (Some ''oid'') (Some 0) None w1))
       = [Ev_set_cred_option 17 ''oid'' GSS_C_EMPTY_BUFFER
            \<lparr>maj_stat = 0, min_stat = 7, set_cred = 43\<rparr>]
   \<and> creds_heap (snd (set_cred_option (stub_library 0 0) (Some ''oid'') (Some 0) None w1)) 0
       = 43"
  using set_cred_option_in_place[where L = "stub_library 0 0" and oid = "''oid''" and val = None
      and w = w1 and c = 0]
  by (simp add: eval_simps)

end
